theory Spec2Isabelle
  imports Main "HOL-Library.Word"
begin

unbundle bit_operations_syntax

section \<open>JavaScript values and strings\<close>

text \<open>
  The model follows \<^verbatim>\<open>api.js\<close>. Strings are byte strings: a JavaScript string is
  represented by the bytes of its UTF-8 encoding, which is what \<^verbatim>\<open>new Buffer(string)\<close>
  yields. The license key is the one string the code reads character by character
  (\<^verbatim>\<open>license_key[i].charCodeAt(0)\<close>), so it is given as its sequence of UTF-16 code
  units. A parameter that a caller may omit is an \<open>option\<close>, \<open>None\<close> standing for
  \<^verbatim>\<open>undefined\<close>.
\<close>

datatype jsval = JUndefined | JNull | JBool bool | JNumber int | JString string

type_synonym byte = "8 word"

type_synonym code_unit = "16 word"

text \<open>The JavaScript string whose characters have the given codes, all below 256.\<close>

definition code_units :: "string \<Rightarrow> code_unit list" where
  "code_units s = map of_char s"

text \<open>
  The numbers of a transaction (queue time, elapsed time) are only handed on to
  \<^verbatim>\<open>JSON.stringify\<close>. Such a number is given by the text that JavaScript prints for
  it, as in \<^verbatim>\<open>5\<close>, \<^verbatim>\<open>10.25\<close> or \<^verbatim>\<open>1e+21\<close>.
\<close>

datatype number = NumberText string

datatype error = TypeError

text \<open>\<^verbatim>\<open>!x\<close> for a value that is a string or \<^verbatim>\<open>undefined\<close>.\<close>

fun falsy :: "string option \<Rightarrow> bool" where
  "falsy None = True"
| "falsy (Some s) = (s = [])"

fun js_of :: "string option \<Rightarrow> jsval" where
  "js_of None = JUndefined"
| "js_of (Some s) = JString s"

text \<open>The conversion that string concatenation applies to such a value.\<close>

fun to_string :: "string option \<Rightarrow> string" where
  "to_string None = ''undefined''"
| "to_string (Some s) = s"

text \<open>\<^verbatim>\<open>x || y\<close> on such values.\<close>

definition or_else :: "string option \<Rightarrow> string option \<Rightarrow> string option" where
  "or_else x y = (if falsy x then y else x)"

text \<open>
  Number to string conversion, as string concatenation applies it to a natural number
  below \<open>10\<^sup>2\<^sup>1\<close> (the failure codes 0 to 5).
\<close>

definition digit_char :: "nat \<Rightarrow> char" where
  "digit_char d = ''0123456789'' ! d"

fun string_of_nat :: "nat \<Rightarrow> string" where
  "string_of_nat n =
     (if n < 10 then [digit_char n] else string_of_nat (n div 10) @ [digit_char (n mod 10)])"

declare string_of_nat.simps [simp del]

section \<open>Platform functions: Buffer, base64, JSON.stringify, util.format\<close>

definition Buffer_from :: "string \<Rightarrow> byte list" where
  "Buffer_from s = map of_char s"

definition Buffer_toString :: "byte list \<Rightarrow> string" where
  "Buffer_toString bs = map (\<lambda>b. char_of (unat b)) bs"

definition b64_alphabet :: string where
  "b64_alphabet = ''ABCDEFGHIJKLMNOPQRSTUVWXYZabcdefghijklmnopqrstuvwxyz0123456789+/''"

definition b64_char :: "nat \<Rightarrow> char" where
  "b64_char n = b64_alphabet ! n"

text \<open>\<^verbatim>\<open>buffer.toString('base64')\<close>: three bytes become four sextets, \<open>=\<close> pads the last group.\<close>

fun base64 :: "byte list \<Rightarrow> string" where
  "base64 [] = []"
| "base64 [a] =
     [b64_char (unat a div 4), b64_char (unat a mod 4 * 16), CHR ''='', CHR ''='']"
| "base64 [a, b] =
     [b64_char (unat a div 4), b64_char (unat a mod 4 * 16 + unat b div 16),
      b64_char (unat b mod 16 * 4), CHR ''='']"
| "base64 (a # b # c # bs) =
     [b64_char (unat a div 4), b64_char (unat a mod 4 * 16 + unat b div 16),
      b64_char (unat b mod 16 * 4 + unat c div 64), b64_char (unat c mod 64)] @ base64 bs"

text \<open>The inverse direction, used to state the round trip of the cipher.\<close>

fun b64_find :: "char \<Rightarrow> string \<Rightarrow> nat" where
  "b64_find c [] = 0"
| "b64_find c (x # xs) = (if c = x then 0 else Suc (b64_find c xs))"

definition b64_index :: "char \<Rightarrow> nat" where
  "b64_index c = b64_find c b64_alphabet"

fun base64_decode :: "string \<Rightarrow> byte list" where
  "base64_decode (p # q # r # s # cs) =
     (let a = b64_index p * 4 + b64_index q div 16;
          b = b64_index q mod 16 * 16 + b64_index r div 4;
          c = b64_index r mod 4 * 64 + b64_index s
      in if r = CHR ''='' then [of_nat a]
         else if s = CHR ''='' then [of_nat a, of_nat b]
         else [of_nat a, of_nat b, of_nat c] @ base64_decode cs)"
| "base64_decode cs = []"

text \<open>
  \<^verbatim>\<open>JSON.stringify(object, null, tabs)\<close> on an object whose property values are
  primitives: properties in insertion order, \<^verbatim>\<open>undefined\<close> ones left out, strings
  quoted and escaped, and a gap of \<open>tabs\<close> spaces (at most ten) when \<open>tabs\<close> is not zero.
\<close>

definition hex_char :: "nat \<Rightarrow> char" where
  "hex_char d = ''0123456789abcdef'' ! d"

definition json_escape :: "char \<Rightarrow> string" where
  "json_escape c =
     (if c = CHR 0x22 then [CHR 0x5C, CHR 0x22]
      else if c = CHR 0x5C then [CHR 0x5C, CHR 0x5C]
      else if c = CHR 0x08 then [CHR 0x5C, CHR ''b'']
      else if c = CHR 0x0C then [CHR 0x5C, CHR ''f'']
      else if c = CHR 0x0A then [CHR 0x5C, CHR ''n'']
      else if c = CHR 0x0D then [CHR 0x5C, CHR ''r'']
      else if c = CHR 0x09 then [CHR 0x5C, CHR ''t'']
      else if (of_char c :: nat) < 32
        then [CHR 0x5C, CHR ''u'', CHR ''0'', CHR ''0'',
              hex_char ((of_char c :: nat) div 16), hex_char ((of_char c :: nat) mod 16)]
      else [c])"

definition json_quote :: "string \<Rightarrow> string" where
  "json_quote s = CHR 0x22 # concat (map json_escape s) @ [CHR 0x22]"

datatype json_value = JsonUndefined | JsonNull | JsonNumber number | JsonString string

fun json_of :: "string option \<Rightarrow> json_value" where
  "json_of None = JsonUndefined"
| "json_of (Some s) = JsonString s"

fun json_str :: "json_value \<Rightarrow> string" where
  "json_str JsonUndefined = []"
| "json_str JsonNull = ''null''"
| "json_str (JsonNumber (NumberText t)) = t"
| "json_str (JsonString s) = json_quote s"

fun join :: "string \<Rightarrow> string list \<Rightarrow> string" where
  "join sep [] = []"
| "join sep [x] = x"
| "join sep (x # y # ys) = x @ sep @ join sep (y # ys)"

definition JSON_stringify :: "(string \<times> json_value) list \<Rightarrow> nat \<Rightarrow> string" where
  "JSON_stringify obj tabs =
     (let gap = replicate (min tabs 10) (CHR '' '');
          props = filter (\<lambda>(k, v). v \<noteq> JsonUndefined) obj;
          colon = (if gap = [] then '':'' else '': '');
          partial = map (\<lambda>(k, v). json_quote k @ colon @ json_str v) props
      in if partial = [] then ''{}''
         else if gap = [] then ''{'' @ join '','' partial @ ''}''
         else ''{'' @ [CHR 0x0A] @ gap @ join ('','' @ [CHR 0x0A] @ gap) partial
              @ [CHR 0x0A] @ ''}'')"

text \<open>
  \<^verbatim>\<open>util.format(f, args...)\<close> with string arguments: \<^verbatim>\<open>%s\<close> takes the next argument
  (and stays as it is when none is left), \<^verbatim>\<open>%%\<close> is a percent sign, the substituted
  text is not scanned again, and arguments left over are appended after a space each.
\<close>

fun util_format :: "string \<Rightarrow> string list \<Rightarrow> string" where
  "util_format (c # d # f) args =
     (if c = CHR ''%'' \<and> d = CHR ''%'' then CHR ''%'' # util_format f args
      else if c = CHR ''%'' \<and> d = CHR ''s''
        then (case args of [] \<Rightarrow> c # d # util_format f []
              | x # xs \<Rightarrow> x @ util_format f xs)
      else c # util_format (d # f) args)"
| "util_format f args = f @ concat (map (\<lambda>x. CHR '' '' # x) args)"

section \<open>Constants of api.js\<close>

definition RUM_STUB :: string where
  "RUM_STUB = ''<script type='text/javascript'>window.NREUM||(NREUM={});''
              @ ''NREUM.info = %s; %s</script>''"

definition RUM_ISSUES :: "string list" where
  "RUM_ISSUES =
    [''NREUM: no browser monitoring headers generated; disabled'',
     ''NREUM: transaction missing while generating browser monitoring headers'',
     ''NREUM: conf.browser_monitoring missing, something is probably wrong'',
     ''NREUM: browser_monitoring headers need a transaction name'',
     ''NREUM: browser_monitoring requires valid application_id'',
     ''NREUM: browser_monitoring requires valid browser_key'']"

text \<open>
  Modelled from the spec: the constants \<^verbatim>\<open>NAMES.CUSTOM\<close> and \<^verbatim>\<open>NAMES.CONTROLLER\<close> of
  \<^verbatim>\<open>lib/metrics/names\<close>, which the spec gives as the prefixes \<open>Custom\<close> and
  \<open>Controller\<close>.
\<close>

definition NAMES_CUSTOM :: string where
  "NAMES_CUSTOM = ''Custom''"

definition NAMES_CONTROLLER :: string where
  "NAMES_CONTROLLER = ''Controller''"

section \<open>The obfuscation cipher\<close>

text \<open>
  \<^verbatim>\<open>for (var i = 0; i < bytes.length; i++)
    bytes[i] = bytes[i] ^ license_key[i % 13].charCodeAt(0);\<close>
  Indexing a string beyond its end gives \<^verbatim>\<open>undefined\<close>, and calling
  \<^verbatim>\<open>charCodeAt\<close> on it throws a TypeError. Within the string, \<^verbatim>\<open>charCodeAt(0)\<close> is
  the code unit, and the buffer keeps the low eight bits of what is stored in it, which
  are the byte combined by XOR with the low eight bits of the code unit.
\<close>

function rumObfuscate_loop ::
  "nat \<Rightarrow> byte list \<Rightarrow> code_unit list \<Rightarrow> error + byte list" where
  "rumObfuscate_loop i bytes license_key =
     (if i < length bytes
      then (if i mod 13 < length license_key
            then rumObfuscate_loop (Suc i)
                   (bytes[i := bytes ! i XOR ucast (license_key ! (i mod 13))]) license_key
            else Inl TypeError)
      else Inr bytes)"
  by pat_completeness auto
termination
  by (relation "measure (\<lambda>(i, bytes, license_key). length bytes - i)") auto

declare rumObfuscate_loop.simps [simp del]

definition rumObfuscate :: "string \<Rightarrow> code_unit list \<Rightarrow> error + string" where
  "rumObfuscate str license_key =
     (case rumObfuscate_loop 0 (Buffer_from str) license_key of
        Inl e \<Rightarrow> Inl e
      | Inr bytes \<Rightarrow> Inr (base64 bytes))"

section \<open>The agent, as the API sees it\<close>

record transaction =
  partialName :: "string option"
  forceIgnore :: jsval
  url :: "string option"
  verb :: "string option"
  queueTime :: number
  timer_durationInMillis :: number

record browser_monitoring =
  enable :: bool
  browser_key :: "string option"
  js_agent_file :: string
  js_agent_loader :: string
  beacon :: string
  error_beacon :: string
  debug :: bool

record config =
  license_key :: "code_unit list"
  application_id :: "string option"
  browser_monitoring :: "browser_monitoring option"

text \<open>
  A pattern is a string or a RegExp object (given by its source), or is left out.
  A RegExp object is never falsy.
\<close>

datatype pattern = PUndefined | PString string | PRegExp string

fun falsy_pattern :: "pattern \<Rightarrow> bool" where
  "falsy_pattern PUndefined = True"
| "falsy_pattern (PString s) = (s = [])"
| "falsy_pattern (PRegExp s) = False"

datatype level = TRACE | WARN | ERROR

type_synonym log_entry = "level \<times> string \<times> jsval list"

datatype field_write = Write_partialName string | Write_forceIgnore jsval

text \<open>
  The state of the agent: \<open>userNormalizer\<close> is the rule store of the normalizer, the
  registered rules in registration order (\<open>None\<close> is the replacement \<^verbatim>\<open>null\<close>);
  \<open>errors\<close> holds the calls of \<^verbatim>\<open>errors.add(transaction, error)\<close>, \<open>logged\<close> the records
  given to the logger (level, message, arguments), and \<open>writes\<close> the assignments made to
  fields of the transaction. \<open>getTransaction\<close> is the transaction of the current
  context, if any, which the API reads with \<^verbatim>\<open>agent.tracer.getTransaction()\<close> and, for
  the header, with \<^verbatim>\<open>agent.getTransaction()\<close>.
\<close>

record agent =
  config :: config
  getTransaction :: "transaction option"
  userNormalizer :: "(pattern \<times> string option) list"
  errors :: "(transaction option \<times> jsval) list"
  logged :: "log_entry list"
  writes :: "field_write list"

definition logger_trace :: "string \<Rightarrow> jsval list \<Rightarrow> agent \<Rightarrow> agent" where
  "logger_trace msg args a = a\<lparr>logged := logged a @ [(TRACE, msg, args)]\<rparr>"

definition logger_warn :: "string \<Rightarrow> jsval list \<Rightarrow> agent \<Rightarrow> agent" where
  "logger_warn msg args a = a\<lparr>logged := logged a @ [(WARN, msg, args)]\<rparr>"

definition logger_error :: "string \<Rightarrow> jsval list \<Rightarrow> agent \<Rightarrow> agent" where
  "logger_error msg args a = a\<lparr>logged := logged a @ [(ERROR, msg, args)]\<rparr>"

definition assign_partialName :: "transaction \<Rightarrow> string \<Rightarrow> agent \<Rightarrow> agent" where
  "assign_partialName t v a =
     a\<lparr>getTransaction := Some (t\<lparr>partialName := Some v\<rparr>),
       writes := writes a @ [Write_partialName v]\<rparr>"

definition assign_forceIgnore :: "transaction \<Rightarrow> jsval \<Rightarrow> agent \<Rightarrow> agent" where
  "assign_forceIgnore t v a =
     a\<lparr>getTransaction := Some (t\<lparr>forceIgnore := v\<rparr>),
       writes := writes a @ [Write_forceIgnore v]\<rparr>"

text \<open>
  Modelled from the spec: \<^verbatim>\<open>userNormalizer.addSimple(pattern, replacement)\<close> of
  \<^verbatim>\<open>lib/metrics/normalizer.js\<close>, which is not among the sources. The spec has the
  rules accumulate in registration order with no removal, and has
  \<^verbatim>\<open>addNamingRule("", "x")\<close> register nothing and log an error: a rule with an empty
  or missing pattern is refused with one error record, any other rule is appended. The
  spec gives no text for that record, so it carries none.
\<close>

definition addSimple :: "pattern \<Rightarrow> string option \<Rightarrow> agent \<Rightarrow> agent" where
  "addSimple p r a =
     (if falsy_pattern p then logger_error [] [] a
      else a\<lparr>userNormalizer := userNormalizer a @ [(p, r)]\<rparr>)"

section \<open>The API\<close>

definition setTransactionName :: "agent \<Rightarrow> string option \<Rightarrow> agent" where
  "setTransactionName a name =
     (case getTransaction a of
        None \<Rightarrow> logger_warn ''No transaction found when setting name to '%s'.'' [js_of name] a
      | Some transaction \<Rightarrow>
          if falsy name
          then (if \<not> falsy (url transaction)
                then logger_error ''Must include name in setTransactionName call for URL %s.''
                       [js_of (url transaction)] a
                else logger_error ''Must include name in setTransactionName call.'' [] a)
          else assign_partialName transaction (NAMES_CUSTOM @ ''/'' @ to_string name) a)"

definition setControllerName :: "agent \<Rightarrow> string option \<Rightarrow> string option \<Rightarrow> agent" where
  "setControllerName a name action =
     (case getTransaction a of
        None \<Rightarrow> logger_warn ''No transaction found when setting controller to %s.'' [js_of name] a
      | Some transaction \<Rightarrow>
          if falsy name
          then (if \<not> falsy (url transaction)
                then logger_error ''Must include name in setControllerName call for URL %s.''
                       [js_of (url transaction)] a
                else logger_error ''Must include name in setControllerName call.'' [] a)
          else let action' = or_else (or_else action (verb transaction)) (Some ''GET'')
               in assign_partialName transaction
                    (NAMES_CONTROLLER @ ''/'' @ to_string name @ ''/'' @ to_string action') a)"

definition setIgnoreTransaction :: "agent \<Rightarrow> jsval \<Rightarrow> agent" where
  "setIgnoreTransaction a ignored =
     (case getTransaction a of
        None \<Rightarrow> logger_warn ''No transaction found to ignore.'' [] a
      | Some transaction \<Rightarrow> assign_forceIgnore transaction ignored a)"

text \<open>
  Modelled from the spec: \<^verbatim>\<open>agent.errors.add(transaction, error)\<close> of the error
  collector, which is not among the sources. The spec has the pair of the current
  transaction, if any, and the error forwarded to it as they are; the model keeps the
  pairs forwarded.
\<close>

definition noticeError :: "agent \<Rightarrow> jsval \<Rightarrow> agent" where
  "noticeError a err = a\<lparr>errors := errors a @ [(getTransaction a, err)]\<rparr>"

definition addNamingRule :: "agent \<Rightarrow> pattern \<Rightarrow> string option \<Rightarrow> agent" where
  "addNamingRule a pattern name =
     (if falsy name then logger_error ''Simple naming rules require a replacement name.'' [] a
      else addSimple pattern (Some (''/'' @ to_string name)) a)"

definition addIgnoringRule :: "agent \<Rightarrow> pattern \<Rightarrow> agent" where
  "addIgnoringRule a pattern =
     (if falsy_pattern pattern then logger_error ''Must include a URL pattern to ignore.'' [] a
      else addSimple pattern None a)"

text \<open>
  \<^verbatim>\<open>_gracefail(num)\<close> logs \<^verbatim>\<open>RUM_ISSUES[num]\<close> as a warning and returns the HTML comment.
  It is only called with the constants 0 to 5, all within \<open>RUM_ISSUES\<close>.
\<close>

definition gracefail :: "nat \<Rightarrow> agent \<Rightarrow> (error + string) \<times> agent" where
  "gracefail num a =
     (Inr (''<!-- NREUM: ('' @ string_of_nat num @ '') -->''),
      logger_warn (RUM_ISSUES ! num) [] a)"

definition rum_hash ::
  "browser_monitoring \<Rightarrow> string option \<Rightarrow> string option \<Rightarrow> number \<Rightarrow> string \<Rightarrow> number
     \<Rightarrow> (string \<times> json_value) list" where
  "rum_hash bm licenseKey appid time transactionName queue =
     [(''agent'', JsonString (js_agent_file bm)),
      (''beacon'', JsonString (beacon bm)),
      (''errorBeacon'', JsonString (error_beacon bm)),
      (''licenseKey'', json_of licenseKey),
      (''applicationID'', json_of appid),
      (''applicationTime'', JsonNumber time),
      (''transactionName'', JsonString transactionName),
      (''queueTime'', JsonNumber queue),
      (''agentToken'', JsonNull),
      (''ttGuid'', JsonString [])]"

text \<open>
  The result is \<open>Inr\<close> the returned string, or \<open>Inl\<close> the exception thrown to the caller.
\<close>

definition getBrowserTimingHeader :: "agent \<Rightarrow> (error + string) \<times> agent" where
  "getBrowserTimingHeader a =
     (let conf = config a in
      (case browser_monitoring conf of
         None \<Rightarrow> gracefail 2 a
       | Some bm \<Rightarrow>
           (if \<not> enable bm then gracefail 0 a
            else (case getTransaction a of
               None \<Rightarrow> gracefail 1 a
             | Some trans' \<Rightarrow>
                 (case partialName trans' of
                    None \<Rightarrow> gracefail 3 a
                  | Some name \<Rightarrow>
                      (if name = [] then gracefail 3 a
                       else (let time = timer_durationInMillis trans';
                                 key = license_key conf;
                                 appid = application_id conf
                         in (if falsy appid then gracefail 4 a
                             else (let licenseKey = browser_key bm
                               in (if falsy licenseKey then gracefail 5 a
                                   else (case rumObfuscate name key of
                                      Inl e \<Rightarrow> (Inl e, a)
                                    | Inr transactionName \<Rightarrow>
                                        (let tabs = (if debug bm then 2 else 0);
                                             json = JSON_stringify
                                               (rum_hash bm licenseKey appid time
                                                  transactionName (queueTime trans')) tabs;
                                             out = util_format RUM_STUB
                                               [json, js_agent_loader bm]
                                         in (Inr out,
                                             logger_trace ''generating RUM header''
                                               [JString out] a)))))))))))))"

section \<open>The specification's side\<close>

text \<open>
  The cipher as the specification words it: byte \<open>i\<close> is combined by XOR with the
  character code of the key character at index \<open>i mod 13\<close>; decoding is base64 decoding
  followed by the same XOR.
\<close>

definition key_byte :: "code_unit list \<Rightarrow> nat \<Rightarrow> byte" where
  "key_byte key i = ucast (key ! (i mod 13))"

definition xor_cyclic :: "code_unit list \<Rightarrow> byte list \<Rightarrow> byte list" where
  "xor_cyclic key bytes = map (\<lambda>i. bytes ! i XOR key_byte key i) [0..<length bytes]"

definition deobfuscate :: "string \<Rightarrow> code_unit list \<Rightarrow> string" where
  "deobfuscate s key = Buffer_toString (xor_cyclic key (base64_decode s))"

text \<open>
  The six failure checks of the header, in the specification's order, each with its
  code. A value is missing when it is falsy, which is what the code's \<^verbatim>\<open>!\<close> tests.
\<close>

definition spec_checks :: "agent \<Rightarrow> (bool \<times> nat) list" where
  "spec_checks a =
     [(browser_monitoring (config a) = None, 2),
      (\<not> (case browser_monitoring (config a) of None \<Rightarrow> False | Some bm \<Rightarrow> enable bm), 0),
      (getTransaction a = None, 1),
      (falsy (case getTransaction a of None \<Rightarrow> None | Some t \<Rightarrow> partialName t), 3),
      (falsy (application_id (config a)), 4),
      (falsy (case browser_monitoring (config a) of None \<Rightarrow> None | Some bm \<Rightarrow> browser_key bm), 5)]"

definition spec_first_failure :: "agent \<Rightarrow> nat option" where
  "spec_first_failure a = map_option snd (find fst (spec_checks a))"

section \<open>Example states\<close>

definition example_monitoring :: browser_monitoring where
  "example_monitoring =
     \<lparr>enable = True, browser_key = Some ''abc123'', js_agent_file = ''js-agent.newrelic.com/nr.js'',
      js_agent_loader = ''LOADER'', beacon = ''beacon.newrelic.com'',
      error_beacon = ''bam.nr-data.net'', debug = False\<rparr>"

definition example_config :: config where
  "example_config =
     \<lparr>license_key = code_units ''0123456789ABC'', application_id = Some ''42'',
      browser_monitoring = Some example_monitoring\<rparr>"

definition example_transaction :: transaction where
  "example_transaction =
     \<lparr>partialName = Some ''Custom/Foo'', forceIgnore = JBool True, url = Some ''/foo'',
      verb = Some ''POST'', queueTime = NumberText ''5'',
      timer_durationInMillis = NumberText ''10''\<rparr>"

definition example_agent :: agent where
  "example_agent =
     \<lparr>config = example_config, getTransaction = Some example_transaction,
      userNormalizer = [], errors = [], logged = [], writes = []\<rparr>"

text \<open>The same agent outside a transaction.\<close>

definition idle_agent :: agent where
  "idle_agent = example_agent\<lparr>getTransaction := None\<rparr>"

text \<open>The same agent with a license key of three characters.\<close>

definition short_key_agent :: agent where
  "short_key_agent =
     example_agent\<lparr>config := example_config\<lparr>license_key := code_units ''abc''\<rparr>\<rparr>"

text \<open>A license key of twelve characters and a transaction name of sixteen bytes.\<close>

definition twelve_key_agent :: agent where
  "twelve_key_agent =
     example_agent
       \<lparr>config := example_config\<lparr>license_key := code_units ''0123456789AB''\<rparr>,
        getTransaction := Some (example_transaction\<lparr>partialName := Some ''Custom/FooBarBaz''\<rparr>)\<rparr>"

section \<open>Bytes and base64\<close>

lemma unat_of_char: "unat (of_char c :: byte) = of_char c"
proof -
  have "unat (of_nat (of_char c) :: byte) = of_char c mod 2 ^ 8"
    by (simp add: unat_of_nat)
  then show ?thesis by (simp add: of_nat_of_char)
qed

lemma Buffer_roundtrip: "Buffer_toString (Buffer_from s) = s"
  by (induction s) (simp_all add: Buffer_toString_def Buffer_from_def unat_of_char)

lemma b64_table:
  "list_all (\<lambda>n. b64_index (b64_char n) = n \<and> b64_char n \<noteq> CHR ''='') [0..<64]"
  by code_simp

lemma b64_index_char: "n < 64 \<Longrightarrow> b64_index (b64_char n) = n"
  using b64_table by (simp add: list_all_iff)

lemma b64_char_not_pad: "n < 64 \<Longrightarrow> b64_char n \<noteq> CHR ''=''"
  using b64_table by (simp add: list_all_iff)

lemma unat_byte_less: "unat (a :: byte) < 256"
  using unsigned_less [of a, where 'a = nat] by simp

lemma base64_roundtrip: "base64_decode (base64 bs) = bs"
proof (induction bs rule: base64.induct)
  case 1
  show ?case by simp
next
  case (2 a)
  have "unat a < 256" by (rule unat_byte_less)
  then show ?case
    by (simp add: b64_index_char b64_char_not_pad Let_def)
next
  case (3 a b)
  have "unat a < 256" "unat b < 256" by (rule unat_byte_less)+
  then show ?case
    by (simp add: b64_index_char b64_char_not_pad Let_def)
next
  case (4 a b c bs)
  have "unat a < 256" "unat b < 256" "unat c < 256" by (rule unat_byte_less)+
  with 4 show ?case
    by (simp add: b64_index_char b64_char_not_pad Let_def)
qed

section \<open>The loop of the cipher\<close>

text \<open>
  When every index the loop still has to visit finds a key character, the loop returns
  the buffer with the bytes from \<open>i\<close> on combined with their key bytes.
\<close>

lemma rumObfuscate_loop_returns:
  "\<forall>j. i \<le> j \<and> j < length bytes \<longrightarrow> j mod 13 < length key \<Longrightarrow>
   rumObfuscate_loop i bytes key =
     Inr (map (\<lambda>j. if j < i then bytes ! j else bytes ! j XOR key_byte key j)
            [0..<length bytes])"
proof (induction i bytes key rule: rumObfuscate_loop.induct)
  case (1 i bytes key)
  show ?case
  proof (cases "i < length bytes")
    case False
    then show ?thesis
      by (subst rumObfuscate_loop.simps) (auto intro!: nth_equalityI)
  next
    case True
    with 1(2) have k: "i mod 13 < length key" by simp
    let ?b = "bytes[i := bytes ! i XOR ucast (key ! (i mod 13))]"
    have "rumObfuscate_loop (Suc i) ?b key =
      Inr (map (\<lambda>j. if j < Suc i then ?b ! j else ?b ! j XOR key_byte key j) [0..<length ?b])"
      using True k 1(2) by (intro 1(1)) simp_all
    also have "map (\<lambda>j. if j < Suc i then ?b ! j else ?b ! j XOR key_byte key j) [0..<length ?b]
      = map (\<lambda>j. if j < i then bytes ! j else bytes ! j XOR key_byte key j) [0..<length bytes]"
      using True by (auto simp: nth_list_update key_byte_def less_Suc_eq)
    finally show ?thesis using True k
      by (subst rumObfuscate_loop.simps) simp
  qed
qed

text \<open>When some index still to visit finds no key character, the loop throws.\<close>

lemma rumObfuscate_loop_throws:
  "i \<le> j \<Longrightarrow> j < length bytes \<Longrightarrow> \<not> j mod 13 < length key \<Longrightarrow>
   rumObfuscate_loop i bytes key = Inl TypeError"
proof (induction i bytes key rule: rumObfuscate_loop.induct)
  case (1 i bytes key)
  show ?case
  proof (cases "i mod 13 < length key")
    case False
    then show ?thesis using 1(2,3) by (subst rumObfuscate_loop.simps) simp
  next
    case True
    then have "i \<noteq> j" using 1(4) by auto
    then have "rumObfuscate_loop (Suc i)
        (bytes[i := bytes ! i XOR ucast (key ! (i mod 13))]) key = Inl TypeError"
      using 1 True by (intro 1(1)) simp_all
    then show ?thesis using True 1(2,3) by (subst rumObfuscate_loop.simps) simp
  qed
qed

lemma rumObfuscate_throws:
  "j < length name \<Longrightarrow> \<not> j mod 13 < length key \<Longrightarrow> rumObfuscate name key = Inl TypeError"
  using rumObfuscate_loop_throws [of 0 j "Buffer_from name" key]
  by (simp add: rumObfuscate_def Buffer_from_def)

lemma rumObfuscate_loop_take:
  "rumObfuscate_loop i bytes (take 13 key) = rumObfuscate_loop i bytes key"
proof (induction i bytes key rule: rumObfuscate_loop.induct)
  case (1 i bytes key)
  have m: "i mod 13 < 13" by simp
  then have l: "i mod 13 < length (take 13 key) \<longleftrightarrow> i mod 13 < length key"
    by simp
  have n: "take 13 key ! (i mod 13) = key ! (i mod 13)"
    using m by simp
  show ?case
    using 1 l n
    by (subst (1 2) rumObfuscate_loop.simps) simp
qed

lemma key_covers:
  "13 \<le> length key \<or> n \<le> length key \<Longrightarrow> j < n \<Longrightarrow> j mod 13 < length key"
  by (metis mod_less_eq_dividend less_le_trans order.strict_trans1 mod_less_divisor
      zero_less_numeral)

text \<open>
  Where the cipher returns, its value is the one the specification describes: the
  base64 text of the bytes combined with the key bytes at the indices \<open>i mod 13\<close>;
  decoding gives the text back, and only the first 13 characters of the key are read.
\<close>

lemma rumObfuscate_returns:
  assumes "13 \<le> length key \<or> length str \<le> length key"
  shows "rumObfuscate str key = Inr (base64 (xor_cyclic key (Buffer_from str)))"
proof -
  have "\<forall>j. 0 \<le> j \<and> j < length (Buffer_from str) \<longrightarrow> j mod 13 < length key"
    using key_covers [OF assms] by (simp add: Buffer_from_def)
  then have "rumObfuscate_loop 0 (Buffer_from str) key = Inr (xor_cyclic key (Buffer_from str))"
    by (simp add: rumObfuscate_loop_returns xor_cyclic_def)
  then show ?thesis by (simp add: rumObfuscate_def)
qed

lemma xor_cyclic_involution: "xor_cyclic key (xor_cyclic key bytes) = bytes"
  by (auto intro!: nth_equalityI simp: xor_cyclic_def xor.assoc)

lemma deobfuscate_base64:
  "deobfuscate (base64 (xor_cyclic key (Buffer_from str))) key = str"
  by (simp add: deobfuscate_def base64_roundtrip xor_cyclic_involution Buffer_roundtrip)

lemma rumObfuscate_roundtrip:
  assumes "13 \<le> length key \<or> length str \<le> length key"
  shows "\<exists>s. rumObfuscate str key = Inr s \<and> deobfuscate s key = str"
  using rumObfuscate_returns [OF assms] by (simp add: deobfuscate_base64)

lemma rumObfuscate_first_13: "rumObfuscate str (take 13 key) = rumObfuscate str key"
  by (simp add: rumObfuscate_def rumObfuscate_loop_take)

lemma rumObfuscate_example:
  "rumObfuscate ''Custom/Foo'' (code_units ''0123456789ABC'') = Inr ''c0RBR1tYGXFXVg==''"
  using rumObfuscate_returns [of "code_units ''0123456789ABC''" "''Custom/Foo''"]
  by (simp add: code_units_def Buffer_from_def xor_cyclic_def key_byte_def b64_char_def
      b64_alphabet_def upt_rec)

section \<open>Claims on the cipher\<close>

text \<open>
  C2. The claim is that, for every text and every key of 13 or fewer characters,
  decoding the obfuscated text gives the text back. With the key \<open>key\<close> of three
  characters and the text \<open>Custom/Foo\<close> of ten bytes, the cipher reads the key at index
  3, finds no character there and throws a TypeError: there is no obfuscated text to
  decode.
\<close>

theorem C2_short_key_throws:
  "length (code_units ''key'') \<le> 13
   \<and> rumObfuscate ''Custom/Foo'' (code_units ''key'') = Inl TypeError"
proof -
  have "rumObfuscate ''Custom/Foo'' (code_units ''key'') = Inl TypeError"
    by (rule rumObfuscate_throws [where j = 3]) (simp_all add: code_units_def)
  then show ?thesis by (simp add: code_units_def)
qed

text \<open>
  C5. The claim is that for every key shorter than 13 characters the indexing by
  \<open>i mod 13\<close> still finds a key byte at every position. With the key \<open>abc\<close> and the text
  \<open>abcd\<close>, position 3 is read at index \<open>3 mod 13 = 3\<close>, beyond the key, and the cipher
  throws a TypeError instead of returning the base64 text.
\<close>

theorem C5_short_key_throws:
  "length (code_units ''abc'') < 13
   \<and> rumObfuscate ''abcd'' (code_units ''abc'') = Inl TypeError"
proof -
  have "rumObfuscate ''abcd'' (code_units ''abc'') = Inl TypeError"
    by (rule rumObfuscate_throws [where j = 3]) (simp_all add: code_units_def)
  then show ?thesis by (simp add: code_units_def)
qed

section \<open>Naming the transaction\<close>

text \<open>
  C7. With an active transaction and a non-empty name, \<open>setTransactionName\<close> assigns
  \<open>Custom/\<close> followed by the name to \<open>partialName\<close> and changes nothing else (one
  assignment, no log record). With no active transaction it changes nothing but the log,
  which gets exactly one warning. With an active transaction and an empty or missing
  name it changes nothing but the log, which gets exactly one error: the one that
  mentions the URL when the transaction has one, the generic one otherwise.
\<close>

theorem C7_transaction_name:
  "(getTransaction a = Some t \<and> name \<noteq> [] \<longrightarrow>
      setTransactionName a (Some name) =
        a\<lparr>getTransaction := Some (t\<lparr>partialName := Some (''Custom/'' @ name)\<rparr>),
          writes := writes a @ [Write_partialName (''Custom/'' @ name)]\<rparr>)
   \<and> (getTransaction a = None \<longrightarrow>
      setTransactionName a arg =
        a\<lparr>logged := logged a @
            [(WARN, ''No transaction found when setting name to '%s'.'', [js_of arg])]\<rparr>)
   \<and> (getTransaction a = Some t \<and> falsy arg \<and> url t = Some u \<and> u \<noteq> [] \<longrightarrow>
      setTransactionName a arg =
        a\<lparr>logged := logged a @
            [(ERROR, ''Must include name in setTransactionName call for URL %s.'',
              [JString u])]\<rparr>)
   \<and> (getTransaction a = Some t \<and> falsy arg \<and> falsy (url t) \<longrightarrow>
      setTransactionName a arg =
        a\<lparr>logged := logged a @
            [(ERROR, ''Must include name in setTransactionName call.'', [])]\<rparr>)"
  by (simp add: setTransactionName_def assign_partialName_def logger_warn_def logger_error_def
      NAMES_CUSTOM_def)

text \<open>
  C7 at concrete calls: a name inside a transaction, a name outside a transaction, a
  missing name with a known URL, and an empty name with no URL.
\<close>

theorem C7_transaction_name_witness:
  "setTransactionName example_agent (Some ''checkout'') =
     example_agent
       \<lparr>getTransaction := Some (example_transaction\<lparr>partialName := Some ''Custom/checkout''\<rparr>),
        writes := [Write_partialName ''Custom/checkout'']\<rparr>
   \<and> setTransactionName idle_agent (Some ''checkout'') =
     idle_agent
       \<lparr>logged := [(WARN, ''No transaction found when setting name to '%s'.'',
                    [JString ''checkout''])]\<rparr>
   \<and> setTransactionName example_agent None =
     example_agent
       \<lparr>logged := [(ERROR, ''Must include name in setTransactionName call for URL %s.'',
                    [JString ''/foo''])]\<rparr>
   \<and> setTransactionName
       (example_agent\<lparr>getTransaction := Some (example_transaction\<lparr>url := None\<rparr>)\<rparr>) (Some []) =
     example_agent
       \<lparr>getTransaction := Some (example_transaction\<lparr>url := None\<rparr>),
        logged := [(ERROR, ''Must include name in setTransactionName call.'', [])]\<rparr>"
  using C7_transaction_name [of example_agent example_transaction "''checkout''" None "''/foo''"]
    C7_transaction_name [of idle_agent example_transaction "''checkout''" "Some ''checkout''"
      "''/foo''"]
    C7_transaction_name
      [of "example_agent\<lparr>getTransaction := Some (example_transaction\<lparr>url := None\<rparr>)\<rparr>"
        "example_transaction\<lparr>url := None\<rparr>" "''checkout''" "Some []" "''/foo''"]
  by (simp add: example_agent_def example_transaction_def idle_agent_def)

text \<open>
  C6, as amended. With an active transaction and a non-empty name, \<open>setControllerName\<close>
  assigns \<open>Controller/\<close>, the name, \<open>/\<close> and the action to \<open>partialName\<close>, where the
  action is the one given when it is non-empty, else the transaction's verb when that
  is non-empty, else \<open>GET\<close>.
\<close>

theorem C6_controller_name:
  assumes "getTransaction a = Some t" and "name \<noteq> []"
  shows "setControllerName a (Some name) action =
     a\<lparr>getTransaction := Some (t\<lparr>partialName := Some (''Controller/'' @ name @ ''/'' @
          (if \<not> falsy action then to_string action
           else if \<not> falsy (verb t) then to_string (verb t)
           else ''GET''))\<rparr>),
       writes := writes a @ [Write_partialName (''Controller/'' @ name @ ''/'' @
          (if \<not> falsy action then to_string action
           else if \<not> falsy (verb t) then to_string (verb t)
           else ''GET''))]\<rparr>"
  using assms
  by (simp add: setControllerName_def assign_partialName_def or_else_def NAMES_CONTROLLER_def
      Let_def)

text \<open>
  C6 at concrete calls: an action given, no action with the verb POST, and no action
  with no verb.
\<close>

theorem C6_controller_name_witness:
  "getTransaction (setControllerName example_agent (Some ''users'') (Some ''index''))
     = Some (example_transaction\<lparr>partialName := Some ''Controller/users/index''\<rparr>)
   \<and> getTransaction (setControllerName example_agent (Some ''users'') None)
     = Some (example_transaction\<lparr>partialName := Some ''Controller/users/POST''\<rparr>)
   \<and> getTransaction (setControllerName
        (example_agent\<lparr>getTransaction := Some (example_transaction\<lparr>verb := None\<rparr>)\<rparr>)
        (Some ''users'') None)
     = Some (example_transaction\<lparr>verb := None, partialName := Some ''Controller/users/GET''\<rparr>)"
  using C6_controller_name [of example_agent example_transaction "''users''" "Some ''index''"]
    C6_controller_name [of example_agent example_transaction "''users''" None]
    C6_controller_name
      [of "example_agent\<lparr>getTransaction := Some (example_transaction\<lparr>verb := None\<rparr>)\<rparr>"
        "example_transaction\<lparr>verb := None\<rparr>" "''users''" None]
  by (simp add: example_agent_def example_transaction_def)

text \<open>
  C6 as stated fails. Inside a transaction, the pair of the empty name and the action
  \<open>index\<close> does not give the name \<open>Controller//index\<close> (the call logs an error and
  assigns nothing), and the pair of the name \<open>users\<close> and the empty action does not
  give \<open>Controller/users/\<close> (the verb is taken).
\<close>

theorem C6_empty_name_counterexample:
  "getTransaction example_agent = Some example_transaction
   \<and> getTransaction (setControllerName example_agent (Some []) (Some ''index''))
       \<noteq> Some (example_transaction
                \<lparr>partialName := Some (''Controller/'' @ [] @ ''/'' @ ''index'')\<rparr>)
   \<and> getTransaction (setControllerName example_agent (Some ''users'') (Some []))
       \<noteq> Some (example_transaction
                \<lparr>partialName := Some (''Controller/'' @ ''users'' @ ''/'' @ [])\<rparr>)"
  by (simp add: setControllerName_def example_agent_def example_transaction_def logger_error_def
      assign_partialName_def or_else_def NAMES_CONTROLLER_def)




section \<open>Ignoring the transaction\<close>

text \<open>
  C10. With an active transaction, \<open>setIgnoreTransaction\<close> stores its argument in
  \<open>forceIgnore\<close> as it is, whatever the value (\<^verbatim>\<open>undefined\<close> included) and whatever was
  stored before, and changes nothing else.
\<close>

theorem C10_ignore_transaction:
  "getTransaction a = Some t \<Longrightarrow>
   setIgnoreTransaction a v =
     a\<lparr>getTransaction := Some (t\<lparr>forceIgnore := v\<rparr>),
       writes := writes a @ [Write_forceIgnore v]\<rparr>"
  by (simp add: setIgnoreTransaction_def assign_forceIgnore_def)

text \<open>C10 at a call with no argument, on a transaction whose flag was \<^verbatim>\<open>true\<close>.\<close>

theorem C10_ignore_transaction_witness:
  "forceIgnore example_transaction = JBool True
   \<and> getTransaction (setIgnoreTransaction example_agent JUndefined)
       = Some (example_transaction\<lparr>forceIgnore := JUndefined\<rparr>)"
  using C10_ignore_transaction [of example_agent example_transaction JUndefined]
  by (simp add: example_agent_def example_transaction_def)

section \<open>Naming and ignoring rules\<close>

text \<open>
  C3, as amended. \<open>addNamingRule\<close> with an empty or missing name logs one error and
  registers nothing. With a non-empty name and a non-empty pattern it registers the
  pattern with the replacement \<open>/\<close> followed by the name, and logs nothing. With a
  non-empty name and an empty or missing pattern, as in \<^verbatim>\<open>addNamingRule("", "x")\<close>,
  nothing is registered and one error is logged. \<open>addIgnoringRule\<close> with an empty or
  missing pattern logs one error and registers nothing; with any other pattern it
  registers the pattern with the replacement \<^verbatim>\<open>null\<close>.
\<close>

theorem C3_rule_registration:
  "(falsy name \<longrightarrow>
      addNamingRule a p name =
        a\<lparr>logged := logged a @
            [(ERROR, ''Simple naming rules require a replacement name.'', [])]\<rparr>)
   \<and> (n \<noteq> [] \<and> \<not> falsy_pattern p \<longrightarrow>
      addNamingRule a p (Some n) =
        a\<lparr>userNormalizer := userNormalizer a @ [(p, Some (''/'' @ n))]\<rparr>)
   \<and> (n \<noteq> [] \<and> falsy_pattern p \<longrightarrow>
      userNormalizer (addNamingRule a p (Some n)) = userNormalizer a
      \<and> (\<exists>e. logged (addNamingRule a p (Some n)) = logged a @ [e] \<and> fst e = ERROR))
   \<and> (falsy_pattern p \<longrightarrow>
      addIgnoringRule a p =
        a\<lparr>logged := logged a @ [(ERROR, ''Must include a URL pattern to ignore.'', [])]\<rparr>)
   \<and> (\<not> falsy_pattern p \<longrightarrow>
      addIgnoringRule a p = a\<lparr>userNormalizer := userNormalizer a @ [(p, None)]\<rparr>)"
  by (simp add: addNamingRule_def addIgnoringRule_def logger_error_def addSimple_def)

text \<open>
  C3 at concrete calls: the pattern \<open>^/a\<close> with the name \<open>B\<close> and with no name, the
  empty pattern with the name \<open>x\<close>, and ignoring the empty pattern and a RegExp.
\<close>

theorem C3_rule_registration_witness:
  "userNormalizer (addNamingRule example_agent (PString ''^/a'') (Some ''B''))
     = [(PString ''^/a'', Some ''/B'')]
   \<and> logged (addNamingRule example_agent (PString ''^/a'') (Some ''B'')) = []
   \<and> userNormalizer (addNamingRule example_agent (PString ''^/a'') None) = []
   \<and> logged (addNamingRule example_agent (PString ''^/a'') None)
     = [(ERROR, ''Simple naming rules require a replacement name.'', [])]
   \<and> userNormalizer (addNamingRule example_agent (PString []) (Some ''x'')) = []
   \<and> map fst (logged (addNamingRule example_agent (PString []) (Some ''x''))) = [ERROR]
   \<and> userNormalizer (addIgnoringRule example_agent (PString [])) = []
   \<and> logged (addIgnoringRule example_agent (PString []))
     = [(ERROR, ''Must include a URL pattern to ignore.'', [])]
   \<and> userNormalizer (addIgnoringRule example_agent (PRegExp ''^/socket''))
     = [(PRegExp ''^/socket'', None)]"
  using C3_rule_registration [of None example_agent "PString ''^/a''" "''B''"]
    C3_rule_registration [of None example_agent "PString []" "''x''"]
    C3_rule_registration [of None example_agent "PRegExp ''^/socket''" "''B''"]
  by (auto simp: example_agent_def)

text \<open>
  C3 as stated fails at the empty pattern: \<^verbatim>\<open>addNamingRule("", "x")\<close> does not register
  the empty pattern with the replacement \<open>/x\<close>; the rule store stays as it was.
\<close>

theorem C3_empty_pattern_counterexample:
  "userNormalizer (addNamingRule example_agent (PString []) (Some ''x''))
     \<noteq> userNormalizer example_agent @ [(PString [], Some ''/x'')]
   \<and> userNormalizer (addNamingRule example_agent (PString []) (Some ''x''))
     = userNormalizer example_agent"
  by (simp add: addNamingRule_def addSimple_def logger_error_def example_agent_def)

section \<open>The browser timing header\<close>

lemma string_of_nat_digit: "n < 10 \<Longrightarrow> string_of_nat n = [digit_char n]"
  by (subst string_of_nat.simps) simp

lemma spec_first_failure_cases:
  "spec_first_failure a =
     (case browser_monitoring (config a) of None \<Rightarrow> Some 2
      | Some bm \<Rightarrow>
          if \<not> enable bm then Some 0
          else (case getTransaction a of None \<Rightarrow> Some 1
            | Some t \<Rightarrow>
                if falsy (partialName t) then Some 3
                else if falsy (application_id (config a)) then Some 4
                else if falsy (browser_key bm) then Some 5
                else None))"
  by (simp add: spec_first_failure_def spec_checks_def split: option.splits)

lemma header_failure:
  "spec_first_failure a = Some c \<Longrightarrow> getBrowserTimingHeader a = gracefail c a"
  by (auto simp: spec_first_failure_cases getBrowserTimingHeader_def Let_def
      split: option.splits if_splits)

lemma header_no_failure:
  "spec_first_failure a = None \<Longrightarrow>
   logged (snd (getBrowserTimingHeader a)) = logged a
   \<or> (\<exists>out. logged (snd (getBrowserTimingHeader a))
          = logged a @ [(TRACE, ''generating RUM header'', [JString out])])"
  by (auto simp: spec_first_failure_cases getBrowserTimingHeader_def Let_def logger_trace_def
      split: option.splits if_splits sum.splits)

text \<open>
  C1. When one of the six checks fails, taken in the order: no \<open>browser_monitoring\<close>
  section (2), \<open>enable\<close> false (0), no active transaction (1), no \<open>partialName\<close> (3), no
  \<open>application_id\<close> (4), no \<open>browser_key\<close> (5), the header is the comment with the code
  of the first check that fails, and the only effect is one warning, the message of
  \<open>RUM_ISSUES\<close> at that code. When none fails, no warning is logged.
\<close>

theorem C1_header_failures:
  "(spec_first_failure a = Some c \<longrightarrow>
      c < 6 \<and>
      getBrowserTimingHeader a =
        (Inr (''<!-- NREUM: ('' @ [digit_char c] @ '') -->''),
         a\<lparr>logged := logged a @ [(WARN, RUM_ISSUES ! c, [])]\<rparr>))
   \<and> (spec_first_failure a = None \<longrightarrow>
        (\<forall>e \<in> set (logged (snd (getBrowserTimingHeader a))).
           e \<in> set (logged a) \<or> fst e = TRACE))"
proof (intro conjI impI)
  assume f: "spec_first_failure a = Some c"
  then show c: "c < 6"
    by (auto simp: spec_first_failure_cases split: option.splits if_splits)
  show "getBrowserTimingHeader a =
        (Inr (''<!-- NREUM: ('' @ [digit_char c] @ '') -->''),
         a\<lparr>logged := logged a @ [(WARN, RUM_ISSUES ! c, [])]\<rparr>)"
    using header_failure [OF f] c
    by (simp add: gracefail_def logger_warn_def string_of_nat_digit)
next
  assume "spec_first_failure a = None"
  from header_no_failure [OF this]
  show "\<forall>e \<in> set (logged (snd (getBrowserTimingHeader a))).
          e \<in> set (logged a) \<or> fst e = TRACE"
    by auto
qed

text \<open>
  C1 at the specification's examples: a configuration with no \<open>browser_monitoring\<close>
  section, monitoring enabled outside a transaction, and a state where no check fails.
\<close>

theorem C1_header_failures_witness:
  "spec_first_failure (example_agent\<lparr>config := example_config\<lparr>browser_monitoring := None\<rparr>\<rparr>)
     = Some 2
   \<and> fst (getBrowserTimingHeader
        (example_agent\<lparr>config := example_config\<lparr>browser_monitoring := None\<rparr>\<rparr>))
     = Inr ''<!-- NREUM: (2) -->''
   \<and> logged (snd (getBrowserTimingHeader
        (example_agent\<lparr>config := example_config\<lparr>browser_monitoring := None\<rparr>\<rparr>)))
     = [(WARN, ''NREUM: conf.browser_monitoring missing, something is probably wrong'', [])]
   \<and> spec_first_failure idle_agent = Some 1
   \<and> fst (getBrowserTimingHeader idle_agent) = Inr ''<!-- NREUM: (1) -->''
   \<and> spec_first_failure example_agent = None
   \<and> list_all (\<lambda>e. fst e = TRACE) (logged (snd (getBrowserTimingHeader example_agent)))"
  using C1_header_failures
      [of "example_agent\<lparr>config := example_config\<lparr>browser_monitoring := None\<rparr>\<rparr>" 2]
    C1_header_failures [of idle_agent 1]
    C1_header_failures [of example_agent 0]
  by (simp add: spec_first_failure_cases example_agent_def example_config_def idle_agent_def
      example_monitoring_def example_transaction_def digit_char_def RUM_ISSUES_def
      list_all_iff)

text \<open>
  C4. The claim is that the header returns a string for every configuration. With the
  license key \<open>abc\<close>, monitoring enabled and complete, and the transaction named
  \<open>Custom/Foo\<close>, the call throws a TypeError and logs nothing.
\<close>

theorem C4_short_key_throws:
  "getBrowserTimingHeader short_key_agent = (Inl TypeError, short_key_agent)"
proof -
  have "rumObfuscate ''Custom/Foo'' (code_units ''abc'') = Inl TypeError"
    by (rule rumObfuscate_throws [where j = 3]) (simp_all add: code_units_def)
  then show ?thesis
    by (simp add: getBrowserTimingHeader_def short_key_agent_def example_agent_def
        example_config_def example_monitoring_def example_transaction_def Let_def)
qed

text \<open>
  The header on success, for a state where the cipher returns: the script tag around
  the JSON text of the ten fields and the loader. The debug flag only selects the
  indentation.
\<close>

lemma util_format_RUM_STUB:
  "util_format RUM_STUB [json, loader] =
     ''<script type='text/javascript'>window.NREUM||(NREUM={});NREUM.info = '' @ json
       @ ''; '' @ loader @ ''</script>''"
  by (simp add: RUM_STUB_def)

lemma getBrowserTimingHeader_success:
  assumes "spec_first_failure a = None"
    and "getTransaction a = Some t" and "partialName t = Some name"
    and "browser_monitoring (config a) = Some bm"
    and "rumObfuscate name (license_key (config a)) = Inr tn"
  shows "fst (getBrowserTimingHeader a) =
     Inr (''<script type='text/javascript'>window.NREUM||(NREUM={});NREUM.info = ''
          @ JSON_stringify
              [(''agent'', JsonString (js_agent_file bm)),
               (''beacon'', JsonString (beacon bm)),
               (''errorBeacon'', JsonString (error_beacon bm)),
               (''licenseKey'', json_of (browser_key bm)),
               (''applicationID'', json_of (application_id (config a))),
               (''applicationTime'', JsonNumber (timer_durationInMillis t)),
               (''transactionName'', JsonString tn),
               (''queueTime'', JsonNumber (queueTime t)),
               (''agentToken'', JsonNull),
               (''ttGuid'', JsonString [])]
              (if debug bm then 2 else 0)
          @ ''; '' @ js_agent_loader bm @ ''</script>'')"
  using assms
  by (simp add: getBrowserTimingHeader_def Let_def rum_hash_def util_format_RUM_STUB
      spec_first_failure_def spec_checks_def split: if_splits)

text \<open>
  C8. The claim is that the header is the script tag whenever all six checks pass. With
  a license key of twelve characters and the transaction named \<open>Custom/FooBarBaz\<close> all
  six checks pass, and the call throws a TypeError instead of returning the script tag.
\<close>

theorem C8_twelve_key_throws:
  "spec_first_failure twelve_key_agent = None
   \<and> fst (getBrowserTimingHeader twelve_key_agent) = Inl TypeError"
proof -
  have "rumObfuscate ''Custom/FooBarBaz'' (code_units ''0123456789AB'') = Inl TypeError"
    by (rule rumObfuscate_throws [where j = 12]) (simp_all add: code_units_def)
  then show ?thesis
    by (simp add: getBrowserTimingHeader_def twelve_key_agent_def example_agent_def
        example_config_def example_monitoring_def example_transaction_def Let_def
        spec_first_failure_def spec_checks_def)
qed

end
